theory Spec2Isabelle
  imports Complex_Main
begin

section \<open>The bouncing layer: values, state and host\<close>

text \<open>
  The script keeps four globals (\<open>dx\<close>, \<open>dy\<close>, \<open>animationId\<close>, \<open>goingDown\<close>) and
  moves one DOM element, \<open>layer\<close>. Numbers are JavaScript numbers; they are modelled as
  reals, with \<open>NaN\<close> kept apart where the script tests a number for truthiness
  (\<open>parseInt(..) || 150\<close>). In a run every coordinate is a sum of whole numbers (the
  start \<open>(0, 150)\<close>, the step \<open>3\<close>, the parsed height, the window's size), on which the
  arithmetic of JavaScript numbers is exact. The element is taken to be positioned
  against the viewport origin, so that \<open>getBoundingClientRect\<close> reads back the \<open>left\<close>,
  \<open>top\<close>, \<open>width\<close> and \<open>height\<close> that the script last assigned to \<open>layer.style\<close>.
  A negative width or height, which a style sheet refuses, is not given a meaning of its
  own: the facts about a sweep ask for a width and a height that are not negative.
\<close>

datatype jsnum = NaN | Num real

text \<open>\<open>a || d\<close> on numbers: \<open>NaN\<close> and \<open>0\<close> are falsy, every other number is truthy.\<close>

fun num_or :: "jsnum \<Rightarrow> real \<Rightarrow> real" where
  "num_or NaN d = d"
| "num_or (Num v) d = (if v \<noteq> 0 then v else d)"

text \<open>\<open>a || d\<close> on strings: only the empty string is falsy.\<close>

definition str_or :: "string \<Rightarrow> string \<Rightarrow> string" where
  "str_or a d = (if a \<noteq> [] then a else d)"

text \<open>
  The form fields as \<open>startAnimation\<close> reads them: the two strings as they are, and for
  the three numeric fields the value that \<open>parseInt\<close> or \<open>parseFloat\<close> returns on the
  field's text (\<open>NaN\<close> for an empty or non-numeric field).
\<close>

record config =
  colorInput :: string
  widthInput :: jsnum
  heightInput :: jsnum
  textInput :: string
  opacityInput :: jsnum

text \<open>\<open>window.innerWidth\<close> and \<open>window.innerHeight\<close> at the time of a call.\<close>

record bounds =
  winW :: real
  winH :: real

text \<open>
  The state: the style of \<open>layer\<close>, the script's globals, and the host's list of
  requested animation frames with the last handle it gave out. \<open>animationId\<close> is
  \<open>None\<close> while the global is still \<open>undefined\<close>.
\<close>

record state =
  backgroundColor :: string
  width_px :: real
  height_px :: real
  opacity :: real
  textContent :: string
  left_px :: real
  top_px :: real
  dx :: real
  dy :: real
  animationId :: "nat option"
  goingDown :: bool
  raf_pending :: "nat list"
  raf_last :: nat

text \<open>
  \<open>requestAnimationFrame\<close> hands out the next handle (handles are positive) and queues
  the callback; \<open>cancelAnimationFrame\<close> removes a queued callback and ignores a handle
  that is \<open>undefined\<close> or not queued.
\<close>

definition requestAnimationFrame :: "state \<Rightarrow> nat \<times> state" where
  "requestAnimationFrame s =
     (let i = Suc (raf_last s)
      in (i, s\<lparr>raf_pending := raf_pending s @ [i], raf_last := i\<rparr>))"

definition cancelAnimationFrame :: "nat option \<Rightarrow> state \<Rightarrow> state" where
  "cancelAnimationFrame a s =
     (case a of
        None \<Rightarrow> s
      | Some i \<Rightarrow> s\<lparr>raf_pending := removeAll i (raf_pending s)\<rparr>)"

section \<open>moveLayer\<close>

text \<open>Lines 34-44: read the rectangle, then \<open>x += dx; y += dy\<close>.\<close>

definition move_tentative :: "state \<Rightarrow> real \<times> real" where
  "move_tentative s = (left_px s + dx s, top_px s + dy s)"

text \<open>
  Lines 46-52: the wall test on the tentative position. The two conditions of the
  \<open>if\<close> / \<open>else if\<close> are named; the test returns the new \<open>dx\<close> and the new \<open>y\<close>,
  and \<open>x\<close> is not touched.
\<close>

definition hits_right :: "bounds \<Rightarrow> state \<Rightarrow> real \<Rightarrow> bool" where
  "hits_right b s x \<longleftrightarrow> dx s > 0 \<and> x + width_px s \<ge> winW b"

definition hits_left :: "state \<Rightarrow> real \<Rightarrow> bool" where
  "hits_left s x \<longleftrightarrow> dx s < 0 \<and> x \<le> 0"

definition wall_test :: "bounds \<Rightarrow> state \<Rightarrow> real \<times> real \<Rightarrow> real \<times> real" where
  "wall_test b s xy =
     (let x = fst xy; y = snd xy; h = height_px s
      in if hits_right b s x
         then (- dx s, y + (if goingDown s then h else - h))
         else if hits_left s x
         then (- dx s, y + (if goingDown s then h else - h))
         else (dx s, y))"

text \<open>
  Lines 54-61: the phase test, with its two conditions named. It returns the new
  \<open>goingDown\<close> and the new \<open>y\<close>.
\<close>

definition hits_bottom :: "bounds \<Rightarrow> state \<Rightarrow> real \<Rightarrow> bool" where
  "hits_bottom b s y \<longleftrightarrow> goingDown s \<and> y + height_px s \<ge> winH b"

definition hits_top :: "state \<Rightarrow> real \<Rightarrow> bool" where
  "hits_top s y \<longleftrightarrow> \<not> goingDown s \<and> y \<le> 0"

definition phase_test :: "bounds \<Rightarrow> state \<Rightarrow> real \<Rightarrow> bool \<times> real" where
  "phase_test b s y =
     (if hits_bottom b s y
      then (False, winH b - height_px s)
      else if hits_top s y
      then (True, 0)
      else (goingDown s, y))"

definition moveLayer :: "bounds \<Rightarrow> state \<Rightarrow> state" where
  "moveLayer b s =
     (let xy = move_tentative s;
          dy1 = wall_test b s xy;
          gy2 = phase_test b s (snd dy1);
          s1 = s\<lparr>dx := fst dy1, goingDown := fst gy2,
                 left_px := fst xy, top_px := snd gy2\<rparr>;
          r = requestAnimationFrame s1
      in (snd r)\<lparr>animationId := Some (fst r)\<rparr>)"

section \<open>startAnimation and the resize listener\<close>

text \<open>
  Lines 10-29 of \<open>startAnimation\<close>: read the form, style the layer, put it at
  \<open>(0, 150)\<close>, reset the globals and cancel the frame that may be requested.
\<close>

definition reset :: "config \<Rightarrow> state \<Rightarrow> state" where
  "reset c s =
     (let color = colorInput c;
          width = num_or (widthInput c) 150;
          height = num_or (heightInput c) 100;
          text = str_or (textInput c) ''Calque'';
          opac = num_or (opacityInput c) 1;
          s1 = s\<lparr>backgroundColor := color, width_px := width, height_px := height,
                 opacity := opac, textContent := text,
                 left_px := 0, top_px := 150,
                 dx := \<bar>dx s\<bar>, dy := 0, goingDown := True\<rparr>
      in cancelAnimationFrame (animationId s1) s1)"

text \<open>Line 30: the first step runs at once, inside \<open>startAnimation\<close>.\<close>

definition startAnimation :: "config \<Rightarrow> bounds \<Rightarrow> state \<Rightarrow> state" where
  "startAnimation c b s = moveLayer b (reset c s)"

text \<open>\<open>if (animationId)\<close>: \<open>undefined\<close> and \<open>0\<close> are falsy.\<close>

fun handle_truthy :: "nat option \<Rightarrow> bool" where
  "handle_truthy None = False"
| "handle_truthy (Some i) = (i \<noteq> 0)"

definition resize :: "bounds \<Rightarrow> state \<Rightarrow> state" where
  "resize b s =
     (if handle_truthy (animationId s)
      then moveLayer b (cancelAnimationFrame (animationId s) s)
      else s)"

text \<open>
  A frame of the host: the queued callbacks are taken off the list and run in order;
  every one of them is \<open>moveLayer\<close>.
\<close>

definition animation_frame :: "bounds \<Rightarrow> state \<Rightarrow> state" where
  "animation_frame b s =
     fold (\<lambda>_. moveLayer b) (raf_pending s) (s\<lparr>raf_pending := []\<rparr>)"

datatype event = Click config | Tick | Resize

fun fire :: "bounds \<Rightarrow> event \<Rightarrow> state \<Rightarrow> state" where
  "fire b (Click c) s = startAnimation c b s"
| "fire b Tick s = animation_frame b s"
| "fire b Resize s = resize b s"

text \<open>
  Lines 4-7: the globals when the script has loaded; no frame is requested yet. The
  states of the page are those that clicks on the start button, frames of the host and
  resizes of the window, each under the bounds of its moment, make of a loaded one.
\<close>

definition loaded :: "state \<Rightarrow> bool" where
  "loaded s \<longleftrightarrow>
     dx s = 3 \<and> dy s = 0 \<and> goingDown s \<and> animationId s = None \<and> raf_pending s = []"

inductive reachable :: "state \<Rightarrow> bool" where
  start: "loaded s \<Longrightarrow> reachable s"
| step: "reachable s \<Longrightarrow> reachable (fire b e s)"

code_pred reachable .

text \<open>The motion part of the state: position, size, velocity and phase.\<close>

definition motion :: "state \<Rightarrow> real \<times> real \<times> real \<times> real \<times> real \<times> real \<times> bool" where
  "motion s = (left_px s, top_px s, width_px s, height_px s, dx s, dy s, goingDown s)"

text \<open>What the layer looks like: colour, opacity and label.\<close>

definition appearance :: "state \<Rightarrow> string \<times> real \<times> string" where
  "appearance s = (backgroundColor s, opacity s, textContent s)"

section \<open>Invariants of a run\<close>

text \<open>
  The scheduler's invariant: before the first click nothing is requested, afterwards
  exactly the frame whose handle \<open>animationId\<close> holds.
\<close>

definition well_scheduled :: "state \<Rightarrow> bool" where
  "well_scheduled s \<longleftrightarrow>
     (case animationId s of
        None \<Rightarrow> raf_pending s = []
      | Some i \<Rightarrow> raf_pending s = [i] \<and> 0 < i)"




text \<open>The phase as the specification names it.\<close>

datatype phase = DESCENDING | ASCENDING

definition verticalPhase :: "state \<Rightarrow> phase" where
  "verticalPhase s = (if goingDown s then DESCENDING else ASCENDING)"

section \<open>The update step as the specification words it\<close>

text \<open>
  The vertical part of the specified algorithm, written from its steps 2 to 4 and not
  from the code: a reflection event shifts \<open>y\<close> by one height in the direction of the
  phase, and the phase test follows on the shifted \<open>y\<close>.
\<close>

definition spec_reflects :: "bounds \<Rightarrow> state \<Rightarrow> bool" where
  "spec_reflects b s \<longleftrightarrow>
     (let x' = left_px s + dx s
      in (dx s > 0 \<and> x' + width_px s \<ge> winW b) \<or> (dx s < 0 \<and> x' \<le> 0))"

definition spec_vertical :: "bounds \<Rightarrow> state \<Rightarrow> real \<times> phase" where
  "spec_vertical b s =
     (let h = height_px s;
          y = (if spec_reflects b s
               then (if verticalPhase s = DESCENDING then top_px s + h else top_px s - h)
               else top_px s)
      in if verticalPhase s = DESCENDING \<and> y + h \<ge> winH b then (winH b - h, ASCENDING)
         else if verticalPhase s = ASCENDING \<and> y \<le> 0 then (0, DESCENDING)
         else (y, verticalPhase s))"

section \<open>Concrete pages and viewports\<close>

text \<open>
  A freshly loaded page whose layer is 150 by 100 at \<open>(0, 150)\<close>, an empty form, a form
  asking for a layer of 150 by 150, and five viewports: 800 by 600, a narrow one, one
  smaller than the layer, one barely wider than the layer, and a low one.
\<close>

definition page0 :: state where
  "page0 = \<lparr>backgroundColor = [], width_px = 150, height_px = 100, opacity = 1,
     textContent = [], left_px = 0, top_px = 150, dx = 3, dy = 0,
     animationId = None, goingDown = True, raf_pending = [], raf_last = 0\<rparr>"

definition form0 :: config where
  "form0 = \<lparr>colorInput = ''red'', widthInput = NaN, heightInput = NaN,
     textInput = [], opacityInput = NaN\<rparr>"


definition viewport :: bounds where
  "viewport = \<lparr>winW = 800, winH = 600\<rparr>"

definition narrow :: bounds where
  "narrow = \<lparr>winW = 160, winH = 300\<rparr>"

definition tiny :: bounds where
  "tiny = \<lparr>winW = 100, winH = 100\<rparr>"



section \<open>Field-wise facts about one step\<close>

lemma moveLayer_left: "left_px (moveLayer b s) = left_px s + dx s"
  by (simp add: moveLayer_def move_tentative_def requestAnimationFrame_def Let_def)

lemma moveLayer_size:
  "width_px (moveLayer b s) = width_px s" "height_px (moveLayer b s) = height_px s"
  by (simp_all add: moveLayer_def requestAnimationFrame_def Let_def)

lemma moveLayer_dy: "dy (moveLayer b s) = dy s"
  by (simp add: moveLayer_def requestAnimationFrame_def Let_def)

lemma moveLayer_dx: "dx (moveLayer b s) = fst (wall_test b s (move_tentative s))"
  by (simp add: moveLayer_def requestAnimationFrame_def Let_def)

lemma moveLayer_goingDown:
  "goingDown (moveLayer b s) =
     fst (phase_test b s (snd (wall_test b s (move_tentative s))))"
  by (simp add: moveLayer_def requestAnimationFrame_def Let_def)

lemma moveLayer_top:
  "top_px (moveLayer b s) =
     snd (phase_test b s (snd (wall_test b s (move_tentative s))))"
  by (simp add: moveLayer_def requestAnimationFrame_def Let_def)

lemma moveLayer_pending:
  "raf_pending (moveLayer b s) = raf_pending s @ [Suc (raf_last s)]"
  "raf_last (moveLayer b s) = Suc (raf_last s)"
  "animationId (moveLayer b s) = Some (Suc (raf_last s))"
  by (simp_all add: moveLayer_def requestAnimationFrame_def Let_def)

lemmas moveLayer_fields = moveLayer_left moveLayer_size moveLayer_dy moveLayer_dx
  moveLayer_goingDown moveLayer_top moveLayer_pending

lemmas step_tests = wall_test_def phase_test_def move_tentative_def hits_right_def
  hits_left_def hits_bottom_def hits_top_def

lemma moveLayer_speed: "\<bar>dx (moveLayer b s)\<bar> = \<bar>dx s\<bar>"
  by (simp add: moveLayer_dx wall_test_def Let_def)

lemma fold_moveLayer_speed: "\<bar>dx (fold moveLayer bs s)\<bar> = \<bar>dx s\<bar>"
proof (induction bs arbitrary: s)
  case Nil
  show ?case by simp
next
  case (Cons b bs)
  then show ?case by (simp add: moveLayer_speed)
qed

section \<open>The scheduler and the globals along a run\<close>

lemma moveLayer_motion:
  "motion (moveLayer b s) =
     (left_px s + dx s,
      snd (phase_test b s (snd (wall_test b s (move_tentative s)))),
      width_px s, height_px s,
      fst (wall_test b s (move_tentative s)), dy s,
      fst (phase_test b s (snd (wall_test b s (move_tentative s)))))"
  by (simp add: motion_def moveLayer_fields)

lemma moveLayer_motion_cong:
  assumes "motion s = motion t"
  shows "motion (moveLayer b s) = motion (moveLayer b t)"
  using assms unfolding motion_def
  by (simp add: moveLayer_fields step_tests Let_def)

lemma moveLayer_appearance: "appearance (moveLayer b s) = appearance s"
  by (simp add: appearance_def moveLayer_def requestAnimationFrame_def Let_def)

lemma cancel_motion: "motion (cancelAnimationFrame a s) = motion s"
  by (simp add: cancelAnimationFrame_def motion_def split: option.splits)

lemma reset_motion:
  "motion (reset c s) =
     (0, 150, num_or (widthInput c) 150, num_or (heightInput c) 100, \<bar>dx s\<bar>, 0, True)"
  by (simp add: reset_def cancelAnimationFrame_def motion_def Let_def split: option.splits)

lemma reset_dx: "dx (reset c s) = \<bar>dx s\<bar>"
  using reset_motion [of c s] by (simp add: motion_def)

lemma reset_appearance:
  "appearance (reset c s) =
     (colorInput c, num_or (opacityInput c) 1, str_or (textInput c) ''Calque'')"
  by (simp add: reset_def cancelAnimationFrame_def appearance_def Let_def split: option.splits)

lemma reset_pending:
  assumes "well_scheduled s"
  shows "raf_pending (reset c s) = []"
  using assms
  by (simp add: reset_def cancelAnimationFrame_def well_scheduled_def Let_def
      split: option.splits)

lemma moveLayer_scheduled:
  assumes "raf_pending s = []"
  shows "well_scheduled (moveLayer b s)"
  using assms by (simp add: well_scheduled_def moveLayer_pending)

lemma startAnimation_scheduled:
  assumes "well_scheduled s"
  shows "well_scheduled (startAnimation c b s)"
  unfolding startAnimation_def
  by (rule moveLayer_scheduled) (rule reset_pending [OF assms])

lemma animation_frame_idle:
  assumes "raf_pending s = []"
  shows "animation_frame b s = s"
  using assms by (simp add: animation_frame_def)

lemma animation_frame_one:
  assumes "raf_pending s = [i]"
  shows "animation_frame b s = moveLayer b (s\<lparr>raf_pending := []\<rparr>)"
  using assms by (simp add: animation_frame_def)

lemma animation_frame_scheduled:
  assumes "well_scheduled s"
  shows "well_scheduled (animation_frame b s)"
proof (cases "animationId s")
  case None
  with assms have "raf_pending s = []" by (simp add: well_scheduled_def)
  then show ?thesis using assms by (simp add: animation_frame_idle)
next
  case (Some i)
  with assms have "raf_pending s = [i]" by (simp add: well_scheduled_def)
  then show ?thesis
    by (simp add: animation_frame_one moveLayer_scheduled)
qed

lemma resize_active:
  assumes "well_scheduled s" "animationId s = Some i"
  shows "resize b s = moveLayer b (s\<lparr>raf_pending := []\<rparr>)"
  using assms by (simp add: resize_def well_scheduled_def cancelAnimationFrame_def)

lemma resize_idle:
  assumes "animationId s = None"
  shows "resize b s = s"
  using assms by (simp add: resize_def)

lemma resize_scheduled:
  assumes "well_scheduled s"
  shows "well_scheduled (resize b s)"
proof (cases "animationId s")
  case None
  then show ?thesis using assms by (simp add: resize_idle)
next
  case (Some i)
  then show ?thesis using assms by (simp add: resize_active moveLayer_scheduled)
qed

lemma fire_scheduled:
  assumes "well_scheduled s"
  shows "well_scheduled (fire b e s)"
  using assms
  by (cases e) (simp_all add: startAnimation_scheduled animation_frame_scheduled resize_scheduled)

lemma unqueued_motion: "motion (s\<lparr>raf_pending := q\<rparr>) = motion s"
  by (simp add: motion_def)

lemma fire_speed:
  assumes "well_scheduled s"
  shows "\<bar>dx (fire b e s)\<bar> = \<bar>dx s\<bar>"
proof (cases e)
  case (Click c)
  have "dx (reset c s) = \<bar>dx s\<bar>"
    using reset_motion [of c s] by (simp add: motion_def)
  then show ?thesis using Click by (simp add: startAnimation_def moveLayer_speed)
next
  case Tick
  show ?thesis
  proof (cases "animationId s")
    case None
    with assms have "raf_pending s = []" by (simp add: well_scheduled_def)
    then show ?thesis using Tick by (simp add: animation_frame_idle)
  next
    case (Some i)
    with assms have "raf_pending s = [i]" by (simp add: well_scheduled_def)
    then show ?thesis using Tick by (simp add: animation_frame_one moveLayer_speed)
  qed
next
  case Resize
  show ?thesis
  proof (cases "animationId s")
    case None
    then show ?thesis using Resize by (simp add: resize_idle)
  next
    case (Some i)
    then show ?thesis using Resize assms by (simp add: resize_active moveLayer_speed)
  qed
qed

lemma fire_dy:
  assumes "well_scheduled s" "dy s = 0"
  shows "dy (fire b e s) = 0"
proof (cases e)
  case (Click c)
  have "dy (reset c s) = 0"
    using reset_motion [of c s] by (simp add: motion_def)
  then show ?thesis using Click by (simp add: startAnimation_def moveLayer_dy)
next
  case Tick
  show ?thesis
  proof (cases "animationId s")
    case None
    with assms have "raf_pending s = []" by (simp add: well_scheduled_def)
    then show ?thesis using Tick assms by (simp add: animation_frame_idle)
  next
    case (Some i)
    with assms have "raf_pending s = [i]" by (simp add: well_scheduled_def)
    then show ?thesis using Tick assms by (simp add: animation_frame_one moveLayer_dy)
  qed
next
  case Resize
  show ?thesis
  proof (cases "animationId s")
    case None
    then show ?thesis using Resize assms by (simp add: resize_idle)
  next
    case (Some i)
    then show ?thesis using Resize assms by (simp add: resize_active moveLayer_dy)
  qed
qed

lemma reachable_invariant:
  assumes "reachable s"
  shows "well_scheduled s \<and> \<bar>dx s\<bar> = 3 \<and> dy s = 0"
  using assms
proof (induction rule: reachable.induct)
  case (start s)
  then show ?case by (simp add: loaded_def well_scheduled_def)
next
  case (step s b e)
  then show ?case by (simp add: fire_scheduled fire_speed fire_dy)
qed

section \<open>Invariants of the sweep\<close>













section \<open>The two concrete runs\<close>

lemma loaded_page0: "loaded page0"
  by (simp add: loaded_def page0_def)

lemma reset_form0_page0:
  "motion (reset form0 page0) = (0, 150, 150, 100, 3, 0, True)"
  by (simp add: reset_motion form0_def page0_def)


lemma cruise_step:
  assumes "motion s = (3 * real k, 150, 150, 100, 3, 0, True)" "k < 216"
  shows "motion (moveLayer viewport s) = (3 * real (Suc k), 150, 150, 100, 3, 0, True)"
  using assms unfolding motion_def
  by (simp add: moveLayer_fields step_tests viewport_def Let_def)

lemma cruise_steps:
  assumes "n \<le> 216"
  shows "motion ((moveLayer viewport ^^ n) (reset form0 page0))
           = (3 * real n, 150, 150, 100, 3, 0, True)"
  using assms
proof (induction n)
  case 0
  show ?case by (simp add: reset_form0_page0)
next
  case (Suc n)
  then have "motion ((moveLayer viewport ^^ n) (reset form0 page0))
           = (3 * real n, 150, 150, 100, 3, 0, True)" and "n < 216" by simp_all
  from cruise_step [OF this] show ?case by simp
qed

lemma contact_step:
  assumes "motion s = (648, 150, 150, 100, 3, 0, True)"
  shows "motion (moveLayer viewport s) = (651, 250, 150, 100, - 3, 0, True)"
    and "hits_right viewport s 651" and "\<not> hits_bottom viewport s 250"
  using assms unfolding motion_def
  by (simp_all add: moveLayer_fields step_tests viewport_def Let_def)

lemma before_contact:
  "motion ((moveLayer viewport ^^ 216) (reset form0 page0)) = (648, 150, 150, 100, 3, 0, True)"
  using cruise_steps [of 216] by simp

lemma at_contact:
  "motion ((moveLayer viewport ^^ 217) (reset form0 page0)) = (651, 250, 150, 100, - 3, 0, True)"
proof -
  have s: "(217::nat) = Suc 216" by simp
  show ?thesis
    unfolding s funpow.simps o_apply by (rule contact_step(1) [OF before_contact])
qed




section \<open>The frames of a run are steps\<close>

text \<open>
  After a click, every frame of the host runs \<open>moveLayer\<close> exactly once: the motion after
  the click and \<open>n\<close> frames is that of \<open>n + 1\<close> steps from the reset state. The
  claims below iterate \<open>moveLayer\<close> itself.
\<close>

lemma frames_are_steps:
  assumes "well_scheduled s"
  shows "well_scheduled ((animation_frame b ^^ n) (startAnimation c b s))
    \<and> animationId ((animation_frame b ^^ n) (startAnimation c b s)) \<noteq> None
    \<and> motion ((animation_frame b ^^ n) (startAnimation c b s))
        = motion ((moveLayer b ^^ Suc n) (reset c s))"
proof (induction n)
  case 0
  show ?case
    using startAnimation_scheduled [OF assms, of c b]
    by (simp add: startAnimation_def moveLayer_pending)
next
  case (Suc n)
  let ?t = "(animation_frame b ^^ n) (startAnimation c b s)"
  from Suc obtain i where i: "animationId ?t = Some i" by auto
  from Suc have ws: "well_scheduled ?t" by simp
  with i have q: "raf_pending ?t = [i]" by (simp add: well_scheduled_def)
  have f: "animation_frame b ?t = moveLayer b (?t\<lparr>raf_pending := []\<rparr>)"
    by (rule animation_frame_one [OF q])
  have "motion (?t\<lparr>raf_pending := []\<rparr>) = motion ((moveLayer b ^^ Suc n) (reset c s))"
    using Suc by (simp add: unqueued_motion)
  from moveLayer_motion_cong [OF this, of b]
  have m: "motion (animation_frame b ?t) = motion ((moveLayer b ^^ Suc (Suc n)) (reset c s))"
    by (simp add: f)
  have "well_scheduled (animation_frame b ?t)"
    by (rule animation_frame_scheduled [OF ws])
  moreover have "animationId (animation_frame b ?t) \<noteq> None"
    by (simp add: f moveLayer_pending)
  ultimately show ?case using m by simp
qed

section \<open>One step against the specified algorithm\<close>

text \<open>
  C1. A single step does to \<open>y\<close> and to the phase what the specified algorithm says:
  on a reflection event (moving right with \<open>x' + width \<ge> winW\<close>, or moving left with
  \<open>x' \<le> 0\<close>) \<open>y\<close> is shifted by \<open>+height\<close> when descending and by \<open>-height\<close>
  when ascending; then, reflection or not, the phase test clamps and toggles on the
  shifted \<open>y\<close>. The script's \<open>dy\<close> is a global that is only ever assigned \<open>0\<close>;
  the specification's state has no such component, so the step is compared on the states
  the script can be in, those with \<open>dy = 0\<close>.
\<close>

theorem step_vertical_as_specified:
  assumes "dy s = 0"
  shows "(top_px (moveLayer b s), verticalPhase (moveLayer b s)) = spec_vertical b s"
  using assms
  by (simp add: moveLayer_fields step_tests spec_vertical_def spec_reflects_def
      verticalPhase_def Let_def)

text \<open>
  A corner contact: at \<open>(648, 450)\<close> the step reflects, shifts \<open>y\<close> to \<open>550\<close>, and
  the phase test then clamps it to \<open>500\<close> and turns the phase.
\<close>

theorem step_vertical_as_specified_witness:
  "dy (page0\<lparr>left_px := 648, top_px := 450\<rparr>) = 0
   \<and> top_px (moveLayer viewport (page0\<lparr>left_px := 648, top_px := 450\<rparr>)) = 500
   \<and> verticalPhase (moveLayer viewport (page0\<lparr>left_px := 648, top_px := 450\<rparr>))
       = ASCENDING"
  using step_vertical_as_specified [of "page0\<lparr>left_px := 648, top_px := 450\<rparr>" viewport]
  by (simp add: page0_def viewport_def spec_vertical_def spec_reflects_def
      verticalPhase_def Let_def)

section \<open>Reflection flips the sign and never clamps x\<close>

text \<open>
  C3. Over any sequence of steps the magnitude of \<open>dx\<close> stays what it was, and the
  resulting \<open>x\<close> of a step is always the old \<open>x\<close> plus the old \<open>dx\<close>. On a step
  that detects wall contact \<open>dx\<close> is negated and nothing else happens to the horizontal
  motion: \<open>x\<close> is not clamped, so the layer lands at or past the wall it hit (right
  edge at or beyond \<open>winW\<close>, or left edge at or below \<open>0\<close>), and the next step brings
  \<open>x\<close> back to where it was before the reflecting step.
\<close>

theorem reflection_flips_sign_only:
  "\<bar>dx (fold moveLayer bs s)\<bar> = \<bar>dx s\<bar>
   \<and> left_px (moveLayer b s) = left_px s + dx s
   \<and> (hits_right b s (left_px s + dx s) \<or> hits_left s (left_px s + dx s) \<longrightarrow>
        dx (moveLayer b s) = - dx s
        \<and> left_px (moveLayer b' (moveLayer b s)) = left_px s)
   \<and> (hits_right b s (left_px s + dx s) \<longrightarrow>
        winW b \<le> left_px (moveLayer b s) + width_px (moveLayer b s))
   \<and> (hits_left s (left_px s + dx s) \<longrightarrow> left_px (moveLayer b s) \<le> 0)"
  by (auto simp add: fold_moveLayer_speed moveLayer_fields step_tests Let_def)

text \<open>
  At \<open>x = 648\<close> in the 800-wide viewport the step lands at \<open>651\<close>, one pixel past the
  wall, with \<open>dx = -3\<close>; the step after it is back at \<open>648\<close>.
\<close>

theorem reflection_flips_sign_only_witness:
  "hits_right viewport (page0\<lparr>left_px := 648\<rparr>) (648 + 3)
   \<and> dx (moveLayer viewport (page0\<lparr>left_px := 648\<rparr>)) = - 3
   \<and> left_px (moveLayer viewport (page0\<lparr>left_px := 648\<rparr>)) = 651
   \<and> winW viewport < 651 + width_px (page0\<lparr>left_px := 648\<rparr>)
   \<and> left_px (moveLayer viewport (moveLayer viewport (page0\<lparr>left_px := 648\<rparr>))) = 648"
  using reflection_flips_sign_only
    [of "[]" "page0\<lparr>left_px := 648\<rparr>" viewport viewport]
  by (simp add: page0_def viewport_def hits_right_def)

section \<open>The phase toggles only at a vertical extreme\<close>

text \<open>
  C5. Whenever a step changes \<open>goingDown\<close>, it has set \<open>y\<close> to the matching extreme:
  from descending to ascending only with \<open>y = winH - h\<close>, from ascending to descending
  only with \<open>y = 0\<close>. The phase is a boolean, so there is no third value, and a step
  that does not toggle leaves it as it was.
\<close>

theorem phase_toggles_only_at_extreme:
  assumes "goingDown (moveLayer b s) \<noteq> goingDown s"
  shows "(goingDown s \<and> \<not> goingDown (moveLayer b s)
            \<and> top_px (moveLayer b s) = winH b - height_px s)
         \<or> (\<not> goingDown s \<and> goingDown (moveLayer b s) \<and> top_px (moveLayer b s) = 0)"
  using assms
  by (auto simp add: moveLayer_goingDown moveLayer_top phase_test_def hits_bottom_def
      hits_top_def split: if_splits)

text \<open>Descending at \<open>y = 550\<close> the step reaches the bottom and turns at \<open>y = 500\<close>.\<close>

theorem phase_toggles_only_at_extreme_witness:
  "goingDown (moveLayer viewport (page0\<lparr>top_px := 550\<rparr>)) \<noteq> goingDown (page0\<lparr>top_px := 550\<rparr>)
   \<and> top_px (moveLayer viewport (page0\<lparr>top_px := 550\<rparr>)) = 500"
proof -
  have toggles: "goingDown (moveLayer viewport (page0\<lparr>top_px := 550\<rparr>))
      \<noteq> goingDown (page0\<lparr>top_px := 550\<rparr>)"
    by (simp add: moveLayer_fields step_tests page0_def viewport_def)
  from phase_toggles_only_at_extreme [OF toggles] toggles show ?thesis
    by (simp add: page0_def viewport_def)
qed

section \<open>At most one flip of each kind per step\<close>

text \<open>
  C10. The right-wall and the left-wall test cannot both hold, being guarded by the
  sign of \<open>dx\<close>, and neither can the bottom and the top test, being guarded by the
  phase. So one step negates \<open>dx\<close> once or not at all, toggles the phase once or not
  at all, and (with \<open>dy = 0\<close>, as it always is) moves \<open>y\<close> by \<open>0\<close>, \<open>+height\<close> or
  \<open>-height\<close> before the phase test clamps it.
\<close>

theorem one_flip_per_step:
  "\<not> (hits_right b s x \<and> hits_left s x)
   \<and> \<not> (hits_bottom b s y \<and> hits_top s y)
   \<and> dx (moveLayer b s) =
       (if hits_right b s (left_px s + dx s) \<or> hits_left s (left_px s + dx s)
        then - dx s else dx s)
   \<and> goingDown (moveLayer b s) =
       (if hits_bottom b s (snd (wall_test b s (move_tentative s)))
           \<or> hits_top s (snd (wall_test b s (move_tentative s)))
        then \<not> goingDown s else goingDown s)
   \<and> (dy s = 0 \<longrightarrow>
        snd (wall_test b s (move_tentative s)) - top_px s
          \<in> {0, height_px s, - height_px s})"
  by (auto simp add: moveLayer_fields step_tests Let_def)

text \<open>The corner contact again: one negation, one toggle, a shift of \<open>+100\<close>.\<close>

theorem one_flip_per_step_witness:
  "dy (page0\<lparr>left_px := 648, top_px := 450\<rparr>) = 0
   \<and> dx (moveLayer viewport (page0\<lparr>left_px := 648, top_px := 450\<rparr>)) = - 3
   \<and> \<not> goingDown (moveLayer viewport (page0\<lparr>left_px := 648, top_px := 450\<rparr>))
   \<and> snd (wall_test viewport (page0\<lparr>left_px := 648, top_px := 450\<rparr>)
        (move_tentative (page0\<lparr>left_px := 648, top_px := 450\<rparr>))) - 450 = 100"
  using one_flip_per_step [of viewport "page0\<lparr>left_px := 648, top_px := 450\<rparr>" 0 0]
  by (simp add: page0_def viewport_def step_tests Let_def)

section \<open>The sweep stays inside the viewport\<close>




section \<open>The corner-contact scenario\<close>

text \<open>
  C4, as stated: in the scenario (layer 150 by 100, viewport 800 by 600, start at
  \<open>(0, 150)\<close>, \<open>dx = 3\<close>, descending) the frame that first has \<open>x + 150 \<ge> 800\<close> would
  have the tentative \<open>x = 656\<close>. It does not: after 216 steps the layer is at \<open>648\<close>,
  still moving right with \<open>648 + 150 < 800\<close>, and the 217th step, the one that flips
  \<open>dx\<close>, has \<open>x = 651\<close>.
\<close>

theorem corner_scenario_contact_frame_counterexample:
  "dx ((moveLayer viewport ^^ 216) (reset form0 page0)) = 3
   \<and> left_px ((moveLayer viewport ^^ 216) (reset form0 page0)) + 150 < 800
   \<and> dx ((moveLayer viewport ^^ 217) (reset form0 page0)) = - 3
   \<and> left_px ((moveLayer viewport ^^ 217) (reset form0 page0)) = 651
   \<and> left_px ((moveLayer viewport ^^ 217) (reset form0 page0)) \<noteq> 656"
  using before_contact at_contact by (simp add: motion_def)

text \<open>
  C4, amended: the positions are the multiples of \<open>3\<close>. For the first 216 steps nothing
  but \<open>x\<close> changes; the 217th step has the tentative \<open>x = 651\<close>, meets the right wall
  (\<open>651 + 150 \<ge> 800\<close>), flips \<open>dx\<close> to \<open>-3\<close> and shifts \<open>y\<close> by \<open>+100\<close> to \<open>250\<close> in that
  same frame, and the phase test on that frame does not fire (\<open>250 + 100 < 600\<close>): the
  layer is still descending.
\<close>

theorem corner_scenario:
  "(\<forall>n\<le>216. motion ((moveLayer viewport ^^ n) (reset form0 page0))
        = (3 * real n, 150, 150, 100, 3, 0, True))
   \<and> hits_right viewport ((moveLayer viewport ^^ 216) (reset form0 page0)) 651
   \<and> motion ((moveLayer viewport ^^ 217) (reset form0 page0))
        = (651, 250, 150, 100, - 3, 0, True)
   \<and> \<not> hits_bottom viewport ((moveLayer viewport ^^ 216) (reset form0 page0)) 250"
  using cruise_steps contact_step(2,3) [OF before_contact] at_contact by simp

theorem corner_scenario_witness:
  "(100::nat) \<le> 216
   \<and> motion ((moveLayer viewport ^^ 100) (reset form0 page0))
        = (300, 150, 150, 100, 3, 0, True)"
  using corner_scenario by simp

section \<open>A layer larger than the viewport\<close>




section \<open>Starting twice is starting once\<close>

text \<open>
  C7. Whatever reachable state a click finds (a negated \<open>dx\<close>, an ascending phase), the
  reset state it makes is the same: position \<open>(0, 150)\<close>, the configured size, \<open>dx = +3\<close>,
  \<open>dy = 0\<close>, descending. So a second click with the same form makes the reset state of
  the first, and after its first step the layer moves and looks exactly as after a
  single click.
\<close>

theorem start_twice_as_once:
  assumes "reachable s"
  shows "motion (reset c s) =
           (0, 150, num_or (widthInput c) 150, num_or (heightInput c) 100, 3, 0, True)
         \<and> motion (reset c (startAnimation c b s)) = motion (reset c s)
         \<and> appearance (reset c (startAnimation c b s)) = appearance (reset c s)
         \<and> motion (startAnimation c b' (startAnimation c b s)) = motion (startAnimation c b' s)
         \<and> appearance (startAnimation c b' (startAnimation c b s))
             = appearance (startAnimation c b' s)"
proof -
  have speed: "\<bar>dx s\<bar> = 3"
    using reachable_invariant [OF assms] by simp
  have again: "\<bar>dx (startAnimation c b s)\<bar> = 3"
    using speed by (simp add: startAnimation_def moveLayer_speed reset_dx)
  have same: "motion (reset c (startAnimation c b s)) = motion (reset c s)"
    by (simp add: reset_motion speed again)
  have twice: "motion (startAnimation c b' (startAnimation c b s))
      = motion (startAnimation c b' s)"
    unfolding startAnimation_def [of c b']
    by (rule moveLayer_motion_cong [OF same])
  have looks: "appearance (reset c (startAnimation c b s)) = appearance (reset c s)"
    by (simp add: reset_appearance)
  have looks_twice: "appearance (startAnimation c b' (startAnimation c b s))
      = appearance (startAnimation c b' s)"
    unfolding startAnimation_def [of c b']
    by (simp add: moveLayer_appearance looks)
  show ?thesis
    using same twice looks looks_twice speed by (simp add: reset_motion)
qed

text \<open>
  A click in the 100 by 100 viewport leaves \<open>dx = -3\<close> and an ascending phase; the next
  click resets both.
\<close>

theorem start_twice_as_once_witness:
  "reachable (startAnimation form0 tiny page0)
   \<and> dx (startAnimation form0 tiny page0) = - 3
   \<and> \<not> goingDown (startAnimation form0 tiny page0)
   \<and> motion (reset form0 (startAnimation form0 tiny page0)) = (0, 150, 150, 100, 3, 0, True)
   \<and> motion (startAnimation form0 viewport
         (startAnimation form0 viewport (startAnimation form0 tiny page0)))
       = (3, 150, 150, 100, 3, 0, True)"
proof -
  let ?s = "startAnimation form0 tiny page0"
  have "reachable (fire tiny (Click form0) page0)"
    by (rule reachable.step, rule reachable.start) (simp add: loaded_def page0_def)
  then have r: "reachable ?s" by simp
  have d: "dx ?s = - 3 \<and> \<not> goingDown ?s"
    by (simp add: startAnimation_def moveLayer_fields
        reset_def cancelAnimationFrame_def step_tests page0_def form0_def tiny_def Let_def)
  note t = start_twice_as_once [OF r, of form0 viewport viewport]
  from t have f: "motion (reset form0 ?s) = (0, 150, 150, 100, 3, 0, True)"
    by (simp add: form0_def)
  then have "motion (startAnimation form0 viewport ?s) = (3, 150, 150, 100, 3, 0, True)"
    by (simp add: startAnimation_def moveLayer_fields step_tests motion_def viewport_def Let_def)
  with t r d f show ?thesis by simp
qed

section \<open>Defaults of the form\<close>

text \<open>
  The script defaults a numeric field with \<open>||\<close>: the default is taken exactly when the
  parsed value is \<open>NaN\<close> or \<open>0\<close>, and every other parsed value is used as it is.
\<close>

lemma num_or_default:
  "num_or NaN d = d" "num_or (Num 0) d = d" "v \<noteq> 0 \<Longrightarrow> num_or (Num v) d = v"
  by simp_all

text \<open>
  C8. Width and height default to 150 and 100 when absent or invalid, opacity to 1 when
  absent or not a number, and every opacity from \<open>0.0\<close> to \<open>1.0\<close>, \<open>0.0\<close> included, is
  applied. The script does not do the last: \<open>parseFloat(..) || 1\<close> finds the parsed
  \<open>0\<close> falsy, and the layer gets opacity \<open>1\<close>.
\<close>

theorem opacity_zero_is_replaced:
  "opacity (startAnimation (c\<lparr>opacityInput := Num 0\<rparr>) b s) = 1"
  using moveLayer_appearance [of b "reset (c\<lparr>opacityInput := Num 0\<rparr>) s"]
    reset_appearance [of "c\<lparr>opacityInput := Num 0\<rparr>" s]
  by (simp add: startAnimation_def appearance_def)

section \<open>A resize while the animation runs\<close>

text \<open>
  C9. When the window is resized while a run is active (\<open>animationId\<close> is set), the
  listener cancels the requested frame and runs \<open>moveLayer\<close> once with the new bounds:
  the motion state is that of one ordinary step from the state before, nothing is reset,
  the appearance is untouched, and afterwards exactly one frame is requested, the one
  whose handle \<open>animationId\<close> holds.
\<close>

theorem resize_runs_one_step:
  assumes "reachable s" "animationId s \<noteq> None"
  shows "motion (resize b s) = motion (moveLayer b s)
         \<and> appearance (resize b s) = appearance s
         \<and> length (raf_pending (resize b s)) = 1
         \<and> raf_pending (resize b s) = [the (animationId (resize b s))]"
proof -
  from assms obtain i where i: "animationId s = Some i" by auto
  have ws: "well_scheduled s" using reachable_invariant [OF assms(1)] by simp
  have r: "resize b s = moveLayer b (s\<lparr>raf_pending := []\<rparr>)"
    by (rule resize_active [OF ws i])
  have m: "motion (s\<lparr>raf_pending := []\<rparr>) = motion s" by (rule unqueued_motion)
  show ?thesis
    by (simp add: r moveLayer_motion_cong [OF m] moveLayer_pending moveLayer_appearance)
       (simp add: appearance_def)
qed

text \<open>
  After a click in the 800 by 600 viewport, a resize to 160 by 300 moves the layer on to
  \<open>x = 6\<close>.
\<close>

theorem resize_runs_one_step_witness:
  "reachable (startAnimation form0 viewport page0)
   \<and> animationId (startAnimation form0 viewport page0) \<noteq> None
   \<and> motion (resize narrow (startAnimation form0 viewport page0))
       = (6, 150, 150, 100, 3, 0, True)
   \<and> length (raf_pending (resize narrow (startAnimation form0 viewport page0))) = 1"
proof -
  let ?s = "startAnimation form0 viewport page0"
  have "reachable (fire viewport (Click form0) page0)"
    by (rule reachable.step, rule reachable.start) (rule loaded_page0)
  then have r: "reachable ?s" by simp
  have a: "animationId ?s \<noteq> None"
    by (simp add: startAnimation_def moveLayer_pending)
  have f: "left_px (reset form0 page0) = 0 \<and> top_px (reset form0 page0) = 150
      \<and> width_px (reset form0 page0) = 150 \<and> height_px (reset form0 page0) = 100
      \<and> dx (reset form0 page0) = 3 \<and> dy (reset form0 page0) = 0
      \<and> goingDown (reset form0 page0)"
    using reset_form0_page0 by (simp add: motion_def)
  have m: "motion (moveLayer narrow ?s) = (6, 150, 150, 100, 3, 0, True)"
    using f
    by (simp add: startAnimation_def motion_def moveLayer_fields step_tests narrow_def
        viewport_def Let_def)
  from resize_runs_one_step [OF r a, of narrow] r a m show ?thesis by simp
qed

end
